theory Spec2Isabelle
  imports Main
begin

section \<open>The message list fetch job\<close>

text \<open>
  A shallow embedding of \<^verbatim>\<open>MessagingMessageListFetchJob.handle\<close>
  (\<^verbatim>\<open>messaging-message-list-fetch.job.ts\<close>). The method is a straight line of
  awaited calls to injected services, two nested \<^verbatim>\<open>try\<close> blocks and two
  \<^verbatim>\<open>switch\<close> statements. The model runs it against the answers of the injected
  services and returns the ordered list of everything the method did, the in-memory
  channel entity as the method leaves it, and whether the returned promise resolves or
  rejects.
\<close>

subsection \<open>Enumerations\<close>

text \<open>
  The enums are imported by the job; only the members the job names are known. Every
  other member of \<^verbatim>\<open>MessageChannelSyncStage\<close> is \<open>OTHER_SYNC_STAGE\<close> with its name,
  every other member of \<^verbatim>\<open>MessageImportSyncStep\<close> is \<open>OTHER_SYNC_STEP\<close>.
  \<^verbatim>\<open>PROVIDER_NOT_SUPPORTED\<close> is a member of two enums; the member of
  \<^verbatim>\<open>MessageImportDriverExceptionCode\<close> carries the prefix \<open>DRIVER_\<close> here.
\<close>

datatype MessageChannelSyncStage =
    PARTIAL_MESSAGE_LIST_FETCH_PENDING
  | FULL_MESSAGE_LIST_FETCH_PENDING
  | OTHER_SYNC_STAGE string

datatype ConnectedAccountRefreshAccessTokenExceptionCode =
    TEMPORARY_NETWORK_ERROR
  | REFRESH_ACCESS_TOKEN_FAILED
  | REFRESH_TOKEN_NOT_FOUND
  | PROVIDER_NOT_SUPPORTED

datatype MessageImportDriverExceptionCode =
    TEMPORARY_ERROR
  | INSUFFICIENT_PERMISSIONS
  | DRIVER_PROVIDER_NOT_SUPPORTED

datatype MessageImportSyncStep =
    FULL_OR_PARTIAL_MESSAGE_LIST_FETCH
  | OTHER_SYNC_STEP string

subsection \<open>Entities and job data\<close>

record MessagingMessageListFetchJobData =
  messageChannelId :: string
  workspaceId :: string

text \<open>
  Modelled from the spec: the entity classes \<^verbatim>\<open>MessageChannelWorkspaceEntity\<close> and
  \<^verbatim>\<open>ConnectedAccountWorkspaceEntity\<close> are declared outside the job's file. The
  records hold the fields the job reads or writes (\<^verbatim>\<open>id\<close>, \<^verbatim>\<open>syncStage\<close>,
  \<^verbatim>\<open>syncStageStartedAt\<close>, \<^verbatim>\<open>throttleFailureCount\<close>, \<^verbatim>\<open>connectedAccountId\<close>,
  \<^verbatim>\<open>connectedAccount\<close>, \<^verbatim>\<open>accessToken\<close>) and the loaded relation
  \<^verbatim>\<open>messageFolders\<close>, with the types of section 3 of the spec: the stage start is a
  timestamp (milliseconds, an \<open>int\<close>), the failure count a non-negative integer, the
  connected account is always present. The two \<^verbatim>\<open>id\<close> fields are
  \<open>connectedAccount_id\<close> and \<open>messageChannel_id\<close>.
\<close>

record ConnectedAccountWorkspaceEntity =
  connectedAccount_id :: string
  accessToken :: string

record MessageChannelWorkspaceEntity =
  messageChannel_id :: string
  syncStage :: MessageChannelSyncStage
  syncStageStartedAt :: int
  throttleFailureCount :: nat
  connectedAccountId :: string
  connectedAccount :: ConnectedAccountWorkspaceEntity
  messageFolders :: "string list"

subsection \<open>Thrown values\<close>

text \<open>
  What a \<^verbatim>\<open>catch (error)\<close> of the job can receive: an instance of
  \<^verbatim>\<open>MessageImportDriverException\<close> (the only class the job constructs, from a message
  and a code), or any other error object, of which the job reads \<^verbatim>\<open>code\<close>,
  \<^verbatim>\<open>message\<close> and \<^verbatim>\<open>reason\<close>. A \<^verbatim>\<open>code\<close> is a member of the refresh enum,
  a member of the driver enum, some other value, or absent; \<^verbatim>\<open>reason\<close> may be absent.
\<close>

datatype code_value =
    RefreshCode ConnectedAccountRefreshAccessTokenExceptionCode
  | DriverCode MessageImportDriverExceptionCode
  | OtherCode string
  | NoCode

datatype thrown =
    MessageImportDriverException string MessageImportDriverExceptionCode
  | ExternalError code_value string "string option"

text \<open>
  The \<^verbatim>\<open>switch (error.code)\<close> of line 94 compares run-time values with
  \<^verbatim>\<open>===\<close>. The declarations of the two enums are outside the job's file; they
  are taken to be string enums whose members have their names as values, and
  \<^verbatim>\<open>PROVIDER_NOT_SUPPORTED\<close> is a member of both: a code written
  \<^verbatim>\<open>MessageImportDriverExceptionCode.PROVIDER_NOT_SUPPORTED\<close> is the same string as
  \<^verbatim>\<open>ConnectedAccountRefreshAccessTokenExceptionCode.PROVIDER_NOT_SUPPORTED\<close> and
  matches its \<^verbatim>\<open>case\<close>. No other member of the driver enum has the name of a
  member of the refresh enum. \<open>refresh_member\<close> is the member of the refresh enum a
  code is equal to, if there is one.
\<close>

fun refresh_member ::
  "code_value \<Rightarrow> ConnectedAccountRefreshAccessTokenExceptionCode option" where
  "refresh_member (RefreshCode c) = Some c"
| "refresh_member (DriverCode DRIVER_PROVIDER_NOT_SUPPORTED) = Some PROVIDER_NOT_SUPPORTED"
| "refresh_member (DriverCode TEMPORARY_ERROR) = None"
| "refresh_member (DriverCode INSUFFICIENT_PERMISSIONS) = None"
| "refresh_member (OtherCode s) = None"
| "refresh_member NoCode = None"

fun error_code :: "thrown \<Rightarrow> code_value" where
  "error_code (MessageImportDriverException m c) = DriverCode c"
| "error_code (ExternalError c m r) = c"

fun error_message :: "thrown \<Rightarrow> string" where
  "error_message (MessageImportDriverException m c) = m"
| "error_message (ExternalError c m r) = m"

fun error_reason :: "thrown \<Rightarrow> string option" where
  "error_reason (MessageImportDriverException m c) = None"
| "error_reason (ExternalError c m r) = r"

subsection \<open>Observable actions\<close>

text \<open>
  The argument of \<^verbatim>\<open>messagingMonitoringService.track\<close>: the event name and the
  workspace id are in every call, the other properties only in some.
\<close>

record track_input =
  eventName :: string
  event_workspaceId :: string
  event_messageChannelId :: "string option"
  event_connectedAccountId :: "string option"
  event_message :: "string option"

text \<open>
  One constructor for each call the job makes on an injected service or imported
  function, with the arguments of the call, and one for its only assignment to the
  entity (\<^verbatim>\<open>messageChannel.connectedAccount.accessToken = ...\<close>).
\<close>

datatype action =
    Track track_input
  | GetRepository string
  | FindOne string "string list"
  | IsThrottled int nat
  | RefreshAndSaveTokens ConnectedAccountWorkspaceEntity string
  | AssignAccessToken string
  | PartialProcessMessageListFetch
      MessageChannelWorkspaceEntity ConnectedAccountWorkspaceEntity string
  | FullProcessMessageListFetch MessageChannelWorkspaceEntity string
  | HandleDriverException thrown MessageImportSyncStep MessageChannelWorkspaceEntity string

subsection \<open>The injected services\<close>

text \<open>
  The services are constructor parameters of the job; the model takes what they answer
  as a parameter too. \<open>Inl\<close> and \<open>Some\<close> of a thrown value stand for a rejected
  promise. \<open>isThrottled\<close> is the imported predicate, whose body is outside the job's
  file: the field is its answer, true or false, at the time of the call.
  \<open>codeText\<close> is the text a member of the refresh enum has inside a template literal
  (the enum's declaration is outside the job's file).

  Modelled from the spec: \<^verbatim>\<open>MessagingMonitoringService.track\<close> and the repository
  are declared outside the job's file. \<^verbatim>\<open>track\<close> records the event and returns
  (section 4.1, step 1: failure to emit is not a job failure); the repository lookup
  returns the channel or not-found (section 6). Writes that a service may perform on
  an entity it is handed are not the job's and are not part of the model.
\<close>

record services =
  findOne :: "string \<Rightarrow> string list \<Rightarrow> MessageChannelWorkspaceEntity option"
  isThrottled :: "int \<Rightarrow> nat \<Rightarrow> bool"
  refreshAndSaveTokens :: "ConnectedAccountWorkspaceEntity \<Rightarrow> string \<Rightarrow> thrown + string"
  partialProcessMessageListFetch ::
    "MessageChannelWorkspaceEntity \<Rightarrow> ConnectedAccountWorkspaceEntity \<Rightarrow> string \<Rightarrow> thrown option"
  fullProcessMessageListFetch :: "MessageChannelWorkspaceEntity \<Rightarrow> string \<Rightarrow> thrown option"
  handleDriverException ::
    "thrown \<Rightarrow> MessageImportSyncStep \<Rightarrow> MessageChannelWorkspaceEntity \<Rightarrow> string \<Rightarrow> thrown option"
  codeText :: "ConnectedAccountRefreshAccessTokenExceptionCode \<Rightarrow> string"

subsection \<open>The events\<close>

definition job_event :: "string \<Rightarrow> string \<Rightarrow> string \<Rightarrow> track_input" where
  "job_event name mcId wsId =
     \<lparr>eventName = name, event_workspaceId = wsId, event_messageChannelId = Some mcId,
      event_connectedAccountId = None, event_message = None\<rparr>"

definition fetch_event :: "string \<Rightarrow> MessageChannelWorkspaceEntity \<Rightarrow> string \<Rightarrow> track_input" where
  "fetch_event name messageChannel wsId =
     \<lparr>eventName = name, event_workspaceId = wsId,
      event_messageChannelId = Some (messageChannel_id messageChannel),
      event_connectedAccountId = Some (connectedAccount_id (connectedAccount messageChannel)),
      event_message = None\<rparr>"

definition insufficient_permissions_event ::
  "services \<Rightarrow> MessageChannelWorkspaceEntity \<Rightarrow> string \<Rightarrow>
   ConnectedAccountRefreshAccessTokenExceptionCode \<Rightarrow> thrown \<Rightarrow> track_input" where
  "insufficient_permissions_event deps messageChannel wsId c error =
     \<lparr>eventName = ''refresh_token.error.insufficient_permissions'',
      event_workspaceId = wsId,
      event_messageChannelId = Some (messageChannel_id messageChannel),
      event_connectedAccountId = Some (connectedAccountId messageChannel),
      event_message =
        Some (codeText deps c @ '': '' @
              (case error_reason error of None \<Rightarrow> [] | Some r \<Rightarrow> r))\<rparr>"

subsection \<open>The blocks of \<^verbatim>\<open>handle\<close>\<close>

text \<open>
  Lines 93 to 120, the \<^verbatim>\<open>catch\<close> of the inner \<^verbatim>\<open>try\<close>: every branch of the
  \<^verbatim>\<open>switch (error.code)\<close> ends in a \<^verbatim>\<open>throw\<close>; the \<^verbatim>\<open>default\<close> is taken
  when the code is equal to no member of the refresh enum. The result is what the
  block did and the value it throws.
\<close>

definition catchRefreshError ::
  "services \<Rightarrow> MessageChannelWorkspaceEntity \<Rightarrow> string \<Rightarrow> thrown \<Rightarrow> action list \<times> thrown" where
  "catchRefreshError deps messageChannel wsId error =
     (case refresh_member (error_code error) of
        Some TEMPORARY_NETWORK_ERROR \<Rightarrow>
          ([], MessageImportDriverException (error_message error) TEMPORARY_ERROR)
      | Some REFRESH_ACCESS_TOKEN_FAILED \<Rightarrow>
          ([Track (insufficient_permissions_event deps messageChannel wsId
                     REFRESH_ACCESS_TOKEN_FAILED error)],
           MessageImportDriverException (error_message error) INSUFFICIENT_PERMISSIONS)
      | Some REFRESH_TOKEN_NOT_FOUND \<Rightarrow>
          ([Track (insufficient_permissions_event deps messageChannel wsId
                     REFRESH_TOKEN_NOT_FOUND error)],
           MessageImportDriverException (error_message error) INSUFFICIENT_PERMISSIONS)
      | Some PROVIDER_NOT_SUPPORTED \<Rightarrow>
          ([], MessageImportDriverException (error_message error) DRIVER_PROVIDER_NOT_SUPPORTED)
      | None \<Rightarrow> ([], error))"

text \<open>
  Lines 87 to 121, the inner \<^verbatim>\<open>try\<close>: the refresh service is called with the
  connected account and the workspace id; its token is assigned to the entity, its
  error goes through the \<^verbatim>\<open>catch\<close> above. The result is what the block did, the
  entity after it, and the value it throws, if any.
\<close>

definition refreshAccessToken ::
  "services \<Rightarrow> MessageChannelWorkspaceEntity \<Rightarrow> string \<Rightarrow>
   action list \<times> MessageChannelWorkspaceEntity \<times> thrown option" where
  "refreshAccessToken deps messageChannel wsId =
     (case refreshAndSaveTokens deps (connectedAccount messageChannel) wsId of
        Inr token \<Rightarrow>
          ([RefreshAndSaveTokens (connectedAccount messageChannel) wsId, AssignAccessToken token],
           messageChannel\<lparr>connectedAccount :=
             (connectedAccount messageChannel)\<lparr>accessToken := token\<rparr>\<rparr>,
           None)
      | Inl error \<Rightarrow>
          (case catchRefreshError deps messageChannel wsId error of
             (acts, e) \<Rightarrow>
               (RefreshAndSaveTokens (connectedAccount messageChannel) wsId # acts,
                messageChannel, Some e)))"

text \<open>
  Lines 123 to 171, the \<^verbatim>\<open>switch (messageChannel.syncStage)\<close>. The result is what
  the block did and the value it throws, if any.
\<close>

definition stageRouter ::
  "services \<Rightarrow> MessageChannelWorkspaceEntity \<Rightarrow> string \<Rightarrow> action list \<times> thrown option" where
  "stageRouter deps messageChannel wsId =
     (case syncStage messageChannel of
        PARTIAL_MESSAGE_LIST_FETCH_PENDING \<Rightarrow>
          (case partialProcessMessageListFetch deps messageChannel
                  (connectedAccount messageChannel) wsId of
             Some error \<Rightarrow>
               ([Track (fetch_event ''partial_message_list_fetch.started'' messageChannel wsId),
                 PartialProcessMessageListFetch messageChannel
                   (connectedAccount messageChannel) wsId],
                Some error)
           | None \<Rightarrow>
               ([Track (fetch_event ''partial_message_list_fetch.started'' messageChannel wsId),
                 PartialProcessMessageListFetch messageChannel
                   (connectedAccount messageChannel) wsId,
                 Track (fetch_event ''partial_message_list_fetch.completed'' messageChannel wsId)],
                None))
      | FULL_MESSAGE_LIST_FETCH_PENDING \<Rightarrow>
          (case fullProcessMessageListFetch deps messageChannel wsId of
             Some error \<Rightarrow>
               ([Track (fetch_event ''full_message_list_fetch.started'' messageChannel wsId),
                 FullProcessMessageListFetch messageChannel wsId],
                Some error)
           | None \<Rightarrow>
               ([Track (fetch_event ''full_message_list_fetch.started'' messageChannel wsId),
                 FullProcessMessageListFetch messageChannel wsId,
                 Track (fetch_event ''full_message_list_fetch.completed'' messageChannel wsId)],
                None))
      | OTHER_SYNC_STAGE s \<Rightarrow> ([], None))"

text \<open>
  Lines 78 to 171, the body of the outer \<^verbatim>\<open>try\<close>: the throttle check and its early
  \<^verbatim>\<open>return\<close>, then the refresh, then the router.
\<close>

definition tryBody ::
  "services \<Rightarrow> MessageChannelWorkspaceEntity \<Rightarrow> string \<Rightarrow>
   action list \<times> MessageChannelWorkspaceEntity \<times> thrown option" where
  "tryBody deps messageChannel wsId =
     (if isThrottled deps (syncStageStartedAt messageChannel)
           (throttleFailureCount messageChannel)
      then ([IsThrottled (syncStageStartedAt messageChannel)
               (throttleFailureCount messageChannel)],
            messageChannel, None)
      else
        (case refreshAccessToken deps messageChannel wsId of
           (refreshed, messageChannel', Some error) \<Rightarrow>
             (IsThrottled (syncStageStartedAt messageChannel)
                (throttleFailureCount messageChannel) # refreshed,
              messageChannel', Some error)
         | (refreshed, messageChannel', None) \<Rightarrow>
             (case stageRouter deps messageChannel' wsId of
                (routed, thrown) \<Rightarrow>
                  (IsThrottled (syncStageStartedAt messageChannel)
                     (throttleFailureCount messageChannel) # refreshed @ routed,
                   messageChannel', thrown))))"

subsection \<open>\<^verbatim>\<open>handle\<close>\<close>

datatype promise = Resolved | Rejected thrown

record run =
  trace :: "action list"
  entity :: "MessageChannelWorkspaceEntity option"
  outcome :: promise

text \<open>The relations the job asks the repository to load (line 64).\<close>

definition relations :: "string list" where
  "relations = [''connectedAccount'', ''messageFolders'']"

text \<open>
  Lines 47 to 65: what every run starts with, up to the answer of the repository.
\<close>

definition prelude :: "MessagingMessageListFetchJobData \<Rightarrow> action list" where
  "prelude data =
     [Track (job_event ''message_list_fetch_job.triggered''
               (messageChannelId data) (workspaceId data)),
      GetRepository ''messageChannel'',
      FindOne (messageChannelId data) relations]"

definition handle :: "services \<Rightarrow> MessagingMessageListFetchJobData \<Rightarrow> run" where
  "handle deps data =
     (case findOne deps (messageChannelId data) relations of
        None \<Rightarrow>
          \<lparr>trace = prelude data @
             [Track (job_event ''message_list_fetch_job.error.message_channel_not_found''
                       (messageChannelId data) (workspaceId data))],
           entity = None, outcome = Resolved\<rparr>
      | Some messageChannel \<Rightarrow>
          (case tryBody deps messageChannel (workspaceId data) of
             (acts, messageChannel', None) \<Rightarrow>
               \<lparr>trace = prelude data @ acts, entity = Some messageChannel',
                outcome = Resolved\<rparr>
           | (acts, messageChannel', Some error) \<Rightarrow>
               \<lparr>trace = prelude data @ acts @
                  [HandleDriverException error FULL_OR_PARTIAL_MESSAGE_LIST_FETCH
                     messageChannel' (workspaceId data)],
                entity = Some messageChannel',
                outcome =
                  (case handleDriverException deps error FULL_OR_PARTIAL_MESSAGE_LIST_FETCH
                          messageChannel' (workspaceId data) of
                     None \<Rightarrow> Resolved
                   | Some escaped \<Rightarrow> Rejected escaped)\<rparr>))"

subsection \<open>Reading a run\<close>

text \<open>The entity after the assignment of line 88.\<close>

definition with_token ::
  "MessageChannelWorkspaceEntity \<Rightarrow> string \<Rightarrow> MessageChannelWorkspaceEntity" where
  "with_token ch token = ch\<lparr>connectedAccount := (connectedAccount ch)\<lparr>accessToken := token\<rparr>\<rparr>"

fun isHandleDriverException :: "action \<Rightarrow> bool" where
  "isHandleDriverException (HandleDriverException e s c w) = True"
| "isHandleDriverException _ = False"

fun isRefreshAndSaveTokens :: "action \<Rightarrow> bool" where
  "isRefreshAndSaveTokens (RefreshAndSaveTokens a w) = True"
| "isRefreshAndSaveTokens _ = False"

fun isProcessMessageListFetch :: "action \<Rightarrow> bool" where
  "isProcessMessageListFetch (PartialProcessMessageListFetch c a w) = True"
| "isProcessMessageListFetch (FullProcessMessageListFetch c w) = True"
| "isProcessMessageListFetch _ = False"

fun isAssignAccessToken :: "action \<Rightarrow> bool" where
  "isAssignAccessToken (AssignAccessToken t) = True"
| "isAssignAccessToken _ = False"

fun isInsufficientPermissionsEvent :: "action \<Rightarrow> bool" where
  "isInsufficientPermissionsEvent (Track ev) =
     (eventName ev = ''refresh_token.error.insufficient_permissions'')"
| "isInsufficientPermissionsEvent _ = False"

text \<open>How many actions of a kind a run holds.\<close>

definition calls :: "(action \<Rightarrow> bool) \<Rightarrow> action list \<Rightarrow> nat" where
  "calls p acts = length (filter p acts)"

subsection \<open>The table of section 4.3 of the spec\<close>

text \<open>
  The category the spec gives for each refresh failure reason, written from the table
  and not from the code.
\<close>

fun spec_category ::
  "ConnectedAccountRefreshAccessTokenExceptionCode \<Rightarrow> MessageImportDriverExceptionCode" where
  "spec_category TEMPORARY_NETWORK_ERROR = TEMPORARY_ERROR"
| "spec_category REFRESH_ACCESS_TOKEN_FAILED = INSUFFICIENT_PERMISSIONS"
| "spec_category REFRESH_TOKEN_NOT_FOUND = INSUFFICIENT_PERMISSIONS"
| "spec_category PROVIDER_NOT_SUPPORTED = DRIVER_PROVIDER_NOT_SUPPORTED"

definition spec_translation :: "thrown \<Rightarrow> thrown" where
  "spec_translation error =
     (case refresh_member (error_code error) of
        Some c \<Rightarrow> MessageImportDriverException (error_message error) (spec_category c)
      | None \<Rightarrow> error)"

subsection \<open>Concrete runs\<close>

definition sample_account :: ConnectedAccountWorkspaceEntity where
  "sample_account = \<lparr>connectedAccount_id = ''ca-1'', accessToken = ''stale''\<rparr>"

definition sample_channel :: "MessageChannelSyncStage \<Rightarrow> MessageChannelWorkspaceEntity" where
  "sample_channel stage =
     \<lparr>messageChannel_id = ''mc-1'', syncStage = stage, syncStageStartedAt = 1700000000000,
      throttleFailureCount = 2, connectedAccountId = ''ca-1'',
      connectedAccount = sample_account, messageFolders = [''inbox'']\<rparr>"

definition sample_data :: MessagingMessageListFetchJobData where
  "sample_data = \<lparr>messageChannelId = ''mc-1'', workspaceId = ''ws-1''\<rparr>"

fun sample_codeText :: "ConnectedAccountRefreshAccessTokenExceptionCode \<Rightarrow> string" where
  "sample_codeText TEMPORARY_NETWORK_ERROR = ''TEMPORARY_NETWORK_ERROR''"
| "sample_codeText REFRESH_ACCESS_TOKEN_FAILED = ''REFRESH_ACCESS_TOKEN_FAILED''"
| "sample_codeText REFRESH_TOKEN_NOT_FOUND = ''REFRESH_TOKEN_NOT_FOUND''"
| "sample_codeText PROVIDER_NOT_SUPPORTED = ''PROVIDER_NOT_SUPPORTED''"

text \<open>
  Services that answer the same whatever they are asked: what the repository holds
  under \<^verbatim>\<open>mc-1\<close>, the verdict of the throttle check, the answer of the refresh
  service, of both fetch services and of the failure handler.
\<close>

definition sample_services ::
  "MessageChannelWorkspaceEntity option \<Rightarrow> bool \<Rightarrow> thrown + string \<Rightarrow> thrown option \<Rightarrow>
   thrown option \<Rightarrow> services" where
  "sample_services stored throttled refreshed fetched handled =
     \<lparr>findOne = (\<lambda>channelId rels. if channelId = ''mc-1'' then stored else None),
      isThrottled = (\<lambda>startedAt failures. throttled),
      refreshAndSaveTokens = (\<lambda>account wsId. refreshed),
      partialProcessMessageListFetch = (\<lambda>ch account wsId. fetched),
      fullProcessMessageListFetch = (\<lambda>ch wsId. fetched),
      handleDriverException = (\<lambda>error step ch wsId. handled),
      codeText = sample_codeText\<rparr>"

definition network_down :: thrown where
  "network_down = ExternalError (RefreshCode TEMPORARY_NETWORK_ERROR) ''socket hang up'' None"

definition token_revoked :: thrown where
  "token_revoked =
     ExternalError (RefreshCode REFRESH_ACCESS_TOKEN_FAILED) ''refresh failed''
       (Some ''invalid_grant'')"

definition token_missing :: thrown where
  "token_missing = ExternalError (RefreshCode REFRESH_TOKEN_NOT_FOUND) ''no refresh token'' None"

definition provider_unknown :: thrown where
  "provider_unknown =
     ExternalError (RefreshCode PROVIDER_NOT_SUPPORTED) ''provider not supported'' None"

definition driver_coded :: thrown where
  "driver_coded =
     ExternalError (DriverCode DRIVER_PROVIDER_NOT_SUPPORTED) ''unsupported provider''
       (Some ''imap'')"

definition plain_error :: thrown where
  "plain_error = ExternalError NoCode ''boom'' None"

definition rate_limited :: thrown where
  "rate_limited = MessageImportDriverException ''rate limit exceeded'' TEMPORARY_ERROR"

section \<open>Properties\<close>

subsection \<open>Auxiliary facts\<close>

lemma calls_simps [simp]:
  "calls p [] = 0"
  "calls p (a # acts) = (if p a then Suc (calls p acts) else calls p acts)"
  "calls p (acts @ rest) = calls p acts + calls p rest"
  by (simp_all add: calls_def)

lemma with_token_frame [simp]:
  "messageChannel_id (with_token ch token) = messageChannel_id ch"
  "syncStage (with_token ch token) = syncStage ch"
  "syncStageStartedAt (with_token ch token) = syncStageStartedAt ch"
  "throttleFailureCount (with_token ch token) = throttleFailureCount ch"
  "connectedAccountId (with_token ch token) = connectedAccountId ch"
  "messageFolders (with_token ch token) = messageFolders ch"
  "connectedAccount_id (connectedAccount (with_token ch token)) =
     connectedAccount_id (connectedAccount ch)"
  "accessToken (connectedAccount (with_token ch token)) = token"
  by (simp_all add: with_token_def)

lemma catchRefreshError_thrown:
  "catchRefreshError deps ch ws error = (acts, e) \<Longrightarrow> e = spec_translation error"
  by (auto simp add: catchRefreshError_def spec_translation_def
      split: option.splits ConnectedAccountRefreshAccessTokenExceptionCode.splits)

lemma catchRefreshError_calls:
  "catchRefreshError deps ch ws error = (acts, e) \<Longrightarrow>
     calls isHandleDriverException acts = 0 \<and> calls isRefreshAndSaveTokens acts = 0 \<and>
     calls isProcessMessageListFetch acts = 0 \<and> calls isAssignAccessToken acts = 0"
  by (auto simp add: catchRefreshError_def
      split: option.splits ConnectedAccountRefreshAccessTokenExceptionCode.splits)

lemma refresh_member_Some:
  "refresh_member v = Some c \<longleftrightarrow>
     v = RefreshCode c \<or> (v = DriverCode DRIVER_PROVIDER_NOT_SUPPORTED \<and> c = PROVIDER_NOT_SUPPORTED)"
  by (cases v rule: refresh_member.cases) auto

lemma catchRefreshError_insufficient:
  "calls isInsufficientPermissionsEvent (fst (catchRefreshError deps ch ws error)) =
     (if error_code error = RefreshCode REFRESH_ACCESS_TOKEN_FAILED \<or>
         error_code error = RefreshCode REFRESH_TOKEN_NOT_FOUND then 1 else 0)"
  by (auto simp add: catchRefreshError_def insufficient_permissions_event_def
      refresh_member_Some
      split: option.splits ConnectedAccountRefreshAccessTokenExceptionCode.splits)

lemma refreshAccessToken_calls:
  "refreshAccessToken deps ch ws = (acts, ch', r) \<Longrightarrow>
     calls isHandleDriverException acts = 0 \<and> calls isRefreshAndSaveTokens acts = 1 \<and>
     calls isProcessMessageListFetch acts = 0 \<and> calls isAssignAccessToken acts \<le> 1"
  by (auto simp add: refreshAccessToken_def split: sum.splits prod.splits
      dest: catchRefreshError_calls)

lemma refreshAccessToken_entity:
  "refreshAccessToken deps ch ws = (acts, ch', r) \<Longrightarrow>
     (\<exists>error. refreshAndSaveTokens deps (connectedAccount ch) ws = Inl error \<and> ch' = ch \<and>
        r = Some (spec_translation error) \<and> calls isAssignAccessToken acts = 0) \<or>
     (\<exists>token. refreshAndSaveTokens deps (connectedAccount ch) ws = Inr token \<and>
        ch' = with_token ch token \<and> r = None \<and> calls isAssignAccessToken acts = 1 \<and>
        AssignAccessToken token \<in> set acts)"
  by (auto simp add: refreshAccessToken_def with_token_def split: sum.splits prod.splits
      dest: catchRefreshError_thrown catchRefreshError_calls)

lemma stageRouter_calls:
  "stageRouter deps ch ws = (acts, r) \<Longrightarrow>
     calls isHandleDriverException acts = 0 \<and> calls isRefreshAndSaveTokens acts = 0 \<and>
     calls isProcessMessageListFetch acts \<le> 1 \<and> calls isAssignAccessToken acts = 0"
  by (auto simp add: stageRouter_def split: MessageChannelSyncStage.splits option.splits)

lemma stageRouter_no_insufficient:
  "stageRouter deps ch ws = (acts, r) \<Longrightarrow> calls isInsufficientPermissionsEvent acts = 0"
  by (auto simp add: stageRouter_def fetch_event_def
      split: MessageChannelSyncStage.splits option.splits)

lemma prelude_calls:
  "calls isHandleDriverException (prelude data) = 0"
  "calls isRefreshAndSaveTokens (prelude data) = 0"
  "calls isProcessMessageListFetch (prelude data) = 0"
  "calls isAssignAccessToken (prelude data) = 0"
  "calls isInsufficientPermissionsEvent (prelude data) = 0"
  by (simp_all add: prelude_def job_event_def)

text \<open>The four ways through \<open>handle\<close>, one for each place where it can stop.\<close>

lemma handle_not_found_run:
  assumes "findOne deps (messageChannelId data) relations = None"
  shows "handle deps data =
    \<lparr>trace = prelude data @
       [Track (job_event ''message_list_fetch_job.error.message_channel_not_found''
                 (messageChannelId data) (workspaceId data))],
     entity = None, outcome = Resolved\<rparr>"
  using assms by (simp add: handle_def)

lemma handle_throttled_run:
  assumes "findOne deps (messageChannelId data) relations = Some ch"
      and "isThrottled deps (syncStageStartedAt ch) (throttleFailureCount ch)"
  shows "handle deps data =
    \<lparr>trace = prelude data @ [IsThrottled (syncStageStartedAt ch) (throttleFailureCount ch)],
     entity = Some ch, outcome = Resolved\<rparr>"
  using assms by (simp add: handle_def tryBody_def)

lemma handle_refresh_failed:
  assumes found: "findOne deps (messageChannelId data) relations = Some ch"
      and nothrottle: "\<not> isThrottled deps (syncStageStartedAt ch) (throttleFailureCount ch)"
      and failed: "refreshAndSaveTokens deps (connectedAccount ch) (workspaceId data) = Inl error"
      and caught: "catchRefreshError deps ch (workspaceId data) error = (acts, e)"
  shows "handle deps data =
    \<lparr>trace = prelude data @
       [IsThrottled (syncStageStartedAt ch) (throttleFailureCount ch),
        RefreshAndSaveTokens (connectedAccount ch) (workspaceId data)] @ acts @
       [HandleDriverException e FULL_OR_PARTIAL_MESSAGE_LIST_FETCH ch (workspaceId data)],
     entity = Some ch,
     outcome =
       (case handleDriverException deps e FULL_OR_PARTIAL_MESSAGE_LIST_FETCH ch
               (workspaceId data) of
          None \<Rightarrow> Resolved | Some escaped \<Rightarrow> Rejected escaped)\<rparr>"
  using assms by (simp add: handle_def tryBody_def refreshAccessToken_def)

lemma handle_routed:
  assumes found: "findOne deps (messageChannelId data) relations = Some ch"
      and nothrottle: "\<not> isThrottled deps (syncStageStartedAt ch) (throttleFailureCount ch)"
      and refreshed: "refreshAndSaveTokens deps (connectedAccount ch) (workspaceId data) = Inr token"
      and routed: "stageRouter deps (with_token ch token) (workspaceId data) = (acts, r)"
  shows "handle deps data =
    \<lparr>trace = prelude data @
       [IsThrottled (syncStageStartedAt ch) (throttleFailureCount ch),
        RefreshAndSaveTokens (connectedAccount ch) (workspaceId data),
        AssignAccessToken token] @ acts @
       (case r of None \<Rightarrow> []
        | Some error \<Rightarrow>
            [HandleDriverException error FULL_OR_PARTIAL_MESSAGE_LIST_FETCH
               (with_token ch token) (workspaceId data)]),
     entity = Some (with_token ch token),
     outcome =
       (case r of None \<Rightarrow> Resolved
        | Some error \<Rightarrow>
            (case handleDriverException deps error FULL_OR_PARTIAL_MESSAGE_LIST_FETCH
                    (with_token ch token) (workspaceId data) of
               None \<Rightarrow> Resolved | Some escaped \<Rightarrow> Rejected escaped))\<rparr>"
  using assms
  by (cases r) (simp_all add: handle_def tryBody_def refreshAccessToken_def with_token_def)

text \<open>The concrete values, field by field.\<close>

lemma sample_data_fields [simp]:
  "messageChannelId sample_data = ''mc-1''"
  "workspaceId sample_data = ''ws-1''"
  by (simp_all add: sample_data_def)

lemma sample_account_fields [simp]:
  "connectedAccount_id sample_account = ''ca-1''"
  "accessToken sample_account = ''stale''"
  by (simp_all add: sample_account_def)

lemma sample_channel_fields [simp]:
  "messageChannel_id (sample_channel stage) = ''mc-1''"
  "syncStage (sample_channel stage) = stage"
  "syncStageStartedAt (sample_channel stage) = 1700000000000"
  "throttleFailureCount (sample_channel stage) = 2"
  "connectedAccountId (sample_channel stage) = ''ca-1''"
  "connectedAccount (sample_channel stage) = sample_account"
  "messageFolders (sample_channel stage) = [''inbox'']"
  by (simp_all add: sample_channel_def)

lemma sample_services_fields [simp]:
  "findOne (sample_services stored throttled refreshed fetched handled) ''mc-1'' rels = stored"
  "isThrottled (sample_services stored throttled refreshed fetched handled) startedAt failures =
     throttled"
  "refreshAndSaveTokens (sample_services stored throttled refreshed fetched handled) account ws =
     refreshed"
  "partialProcessMessageListFetch (sample_services stored throttled refreshed fetched handled)
     ch account ws = fetched"
  "fullProcessMessageListFetch (sample_services stored throttled refreshed fetched handled) ch ws =
     fetched"
  "handleDriverException (sample_services stored throttled refreshed fetched handled)
     error step ch ws = handled"
  "codeText (sample_services stored throttled refreshed fetched handled) = sample_codeText"
  by (simp_all add: sample_services_def)

lemma sample_prelude:
  "prelude sample_data =
     [Track \<lparr>eventName = ''message_list_fetch_job.triggered'', event_workspaceId = ''ws-1'',
             event_messageChannelId = Some ''mc-1'', event_connectedAccountId = None,
             event_message = None\<rparr>,
      GetRepository ''messageChannel'',
      FindOne ''mc-1'' [''connectedAccount'', ''messageFolders'']]"
  by (simp add: prelude_def job_event_def relations_def)

subsection \<open>Channel not found\<close>

text \<open>
  C5. When the repository finds no channel under the id of the job, \<open>handle\<close> emits the
  triggered event, asks the repository, emits one
  \<^verbatim>\<open>message_list_fetch_job.error.message_channel_not_found\<close> event that carries the
  channel id and the workspace id of the job, and resolves. The run holds nothing else:
  no throttle check, no refresh, no fetch, no call of the failure handler.
\<close>

theorem handle_channel_not_found:
  assumes "findOne deps (messageChannelId data) relations = None"
  shows "handle deps data =
    \<lparr>trace =
       [Track \<lparr>eventName = ''message_list_fetch_job.triggered'',
               event_workspaceId = workspaceId data,
               event_messageChannelId = Some (messageChannelId data),
               event_connectedAccountId = None, event_message = None\<rparr>,
        GetRepository ''messageChannel'',
        FindOne (messageChannelId data) [''connectedAccount'', ''messageFolders''],
        Track \<lparr>eventName = ''message_list_fetch_job.error.message_channel_not_found'',
               event_workspaceId = workspaceId data,
               event_messageChannelId = Some (messageChannelId data),
               event_connectedAccountId = None, event_message = None\<rparr>],
     entity = None, outcome = Resolved\<rparr>"
  using assms by (simp add: handle_def prelude_def job_event_def relations_def)

theorem handle_channel_not_found_witness:
  "findOne (sample_services None False (Inr ''fresh'') None None)
     (messageChannelId sample_data) relations = None \<and>
   handle (sample_services None False (Inr ''fresh'') None None) sample_data =
    \<lparr>trace =
       [Track \<lparr>eventName = ''message_list_fetch_job.triggered'',
               event_workspaceId = ''ws-1'', event_messageChannelId = Some ''mc-1'',
               event_connectedAccountId = None, event_message = None\<rparr>,
        GetRepository ''messageChannel'',
        FindOne ''mc-1'' [''connectedAccount'', ''messageFolders''],
        Track \<lparr>eventName = ''message_list_fetch_job.error.message_channel_not_found'',
               event_workspaceId = ''ws-1'', event_messageChannelId = Some ''mc-1'',
               event_connectedAccountId = None, event_message = None\<rparr>],
     entity = None, outcome = Resolved\<rparr>"
  using handle_channel_not_found
    [of "sample_services None False (Inr ''fresh'') None None" sample_data]
  by simp

subsection \<open>Throttled channel\<close>

text \<open>
  C4. When the channel is found and \<open>isThrottled\<close>, applied to its
  \<^verbatim>\<open>syncStageStartedAt\<close> and \<^verbatim>\<open>throttleFailureCount\<close>, answers true, \<open>handle\<close>
  resolves after the check. The run holds the triggered event, the lookup and the
  check, and nothing else: no refresh, no assignment to the entity (it is the loaded
  one), no fetch, no call of the failure handler, no further event.
\<close>

theorem handle_throttled_skips:
  assumes "findOne deps (messageChannelId data) relations = Some ch"
      and "isThrottled deps (syncStageStartedAt ch) (throttleFailureCount ch)"
  shows "handle deps data =
    \<lparr>trace =
       [Track \<lparr>eventName = ''message_list_fetch_job.triggered'',
               event_workspaceId = workspaceId data,
               event_messageChannelId = Some (messageChannelId data),
               event_connectedAccountId = None, event_message = None\<rparr>,
        GetRepository ''messageChannel'',
        FindOne (messageChannelId data) [''connectedAccount'', ''messageFolders''],
        IsThrottled (syncStageStartedAt ch) (throttleFailureCount ch)],
     entity = Some ch, outcome = Resolved\<rparr>"
  using assms by (simp add: handle_def tryBody_def prelude_def job_event_def relations_def)

theorem handle_throttled_skips_witness:
  "findOne
     (sample_services (Some (sample_channel FULL_MESSAGE_LIST_FETCH_PENDING)) True
        (Inr ''fresh'') None None)
     (messageChannelId sample_data) relations =
     Some (sample_channel FULL_MESSAGE_LIST_FETCH_PENDING) \<and>
   isThrottled
     (sample_services (Some (sample_channel FULL_MESSAGE_LIST_FETCH_PENDING)) True
        (Inr ''fresh'') None None)
     (syncStageStartedAt (sample_channel FULL_MESSAGE_LIST_FETCH_PENDING))
     (throttleFailureCount (sample_channel FULL_MESSAGE_LIST_FETCH_PENDING)) \<and>
   handle
     (sample_services (Some (sample_channel FULL_MESSAGE_LIST_FETCH_PENDING)) True
        (Inr ''fresh'') None None)
     sample_data =
    \<lparr>trace =
       [Track \<lparr>eventName = ''message_list_fetch_job.triggered'',
               event_workspaceId = ''ws-1'', event_messageChannelId = Some ''mc-1'',
               event_connectedAccountId = None, event_message = None\<rparr>,
        GetRepository ''messageChannel'',
        FindOne ''mc-1'' [''connectedAccount'', ''messageFolders''],
        IsThrottled 1700000000000 2],
     entity = Some (sample_channel FULL_MESSAGE_LIST_FETCH_PENDING), outcome = Resolved\<rparr>"
  using handle_throttled_skips
    [of "sample_services (Some (sample_channel FULL_MESSAGE_LIST_FETCH_PENDING)) True
           (Inr ''fresh'') None None"
        sample_data "sample_channel FULL_MESSAGE_LIST_FETCH_PENDING"]
  by simp

subsection \<open>The stage router\<close>

text \<open>
  C7. A run reaches the router when the channel is found, the throttle check answers
  false and the refresh service returns a token. When the stage of the channel is
  neither \<^verbatim>\<open>PARTIAL_MESSAGE_LIST_FETCH_PENDING\<close> nor
  \<^verbatim>\<open>FULL_MESSAGE_LIST_FETCH_PENDING\<close>, the router does nothing: the run ends with
  the assignment of the token, with no fetch event, no call of a fetch service and no
  call of the failure handler, and \<open>handle\<close> resolves.
\<close>

theorem stage_router_other_stage_noop:
  assumes "findOne deps (messageChannelId data) relations = Some ch"
      and "\<not> isThrottled deps (syncStageStartedAt ch) (throttleFailureCount ch)"
      and "refreshAndSaveTokens deps (connectedAccount ch) (workspaceId data) = Inr token"
      and "syncStage ch \<noteq> PARTIAL_MESSAGE_LIST_FETCH_PENDING"
      and "syncStage ch \<noteq> FULL_MESSAGE_LIST_FETCH_PENDING"
  shows "stageRouter deps (with_token ch token) (workspaceId data) = ([], None) \<and>
    handle deps data =
    \<lparr>trace =
       [Track \<lparr>eventName = ''message_list_fetch_job.triggered'',
               event_workspaceId = workspaceId data,
               event_messageChannelId = Some (messageChannelId data),
               event_connectedAccountId = None, event_message = None\<rparr>,
        GetRepository ''messageChannel'',
        FindOne (messageChannelId data) [''connectedAccount'', ''messageFolders''],
        IsThrottled (syncStageStartedAt ch) (throttleFailureCount ch),
        RefreshAndSaveTokens (connectedAccount ch) (workspaceId data),
        AssignAccessToken token],
     entity = Some (with_token ch token), outcome = Resolved\<rparr>"
  using assms
  by (cases "syncStage ch")
     (simp_all add: handle_def tryBody_def refreshAccessToken_def stageRouter_def with_token_def
        prelude_def job_event_def relations_def)

theorem stage_router_other_stage_noop_witness:
  "findOne
     (sample_services (Some (sample_channel (OTHER_SYNC_STAGE ''MESSAGES_IMPORT_PENDING'')))
        False (Inr ''fresh'') (Some plain_error) None)
     (messageChannelId sample_data) relations =
     Some (sample_channel (OTHER_SYNC_STAGE ''MESSAGES_IMPORT_PENDING'')) \<and>
   \<not> isThrottled
     (sample_services (Some (sample_channel (OTHER_SYNC_STAGE ''MESSAGES_IMPORT_PENDING'')))
        False (Inr ''fresh'') (Some plain_error) None)
     (syncStageStartedAt (sample_channel (OTHER_SYNC_STAGE ''MESSAGES_IMPORT_PENDING'')))
     (throttleFailureCount (sample_channel (OTHER_SYNC_STAGE ''MESSAGES_IMPORT_PENDING''))) \<and>
   refreshAndSaveTokens
     (sample_services (Some (sample_channel (OTHER_SYNC_STAGE ''MESSAGES_IMPORT_PENDING'')))
        False (Inr ''fresh'') (Some plain_error) None)
     (connectedAccount (sample_channel (OTHER_SYNC_STAGE ''MESSAGES_IMPORT_PENDING'')))
     (workspaceId sample_data) = Inr ''fresh'' \<and>
   syncStage (sample_channel (OTHER_SYNC_STAGE ''MESSAGES_IMPORT_PENDING'')) \<noteq>
     PARTIAL_MESSAGE_LIST_FETCH_PENDING \<and>
   syncStage (sample_channel (OTHER_SYNC_STAGE ''MESSAGES_IMPORT_PENDING'')) \<noteq>
     FULL_MESSAGE_LIST_FETCH_PENDING \<and>
   handle
     (sample_services (Some (sample_channel (OTHER_SYNC_STAGE ''MESSAGES_IMPORT_PENDING'')))
        False (Inr ''fresh'') (Some plain_error) None)
     sample_data =
    \<lparr>trace =
       [Track \<lparr>eventName = ''message_list_fetch_job.triggered'',
               event_workspaceId = ''ws-1'', event_messageChannelId = Some ''mc-1'',
               event_connectedAccountId = None, event_message = None\<rparr>,
        GetRepository ''messageChannel'',
        FindOne ''mc-1'' [''connectedAccount'', ''messageFolders''],
        IsThrottled 1700000000000 2,
        RefreshAndSaveTokens sample_account ''ws-1'',
        AssignAccessToken ''fresh''],
     entity =
       Some (with_token (sample_channel (OTHER_SYNC_STAGE ''MESSAGES_IMPORT_PENDING'')) ''fresh''),
     outcome = Resolved\<rparr>"
  using stage_router_other_stage_noop
    [of "sample_services (Some (sample_channel (OTHER_SYNC_STAGE ''MESSAGES_IMPORT_PENDING'')))
           False (Inr ''fresh'') (Some plain_error) None"
        sample_data "sample_channel (OTHER_SYNC_STAGE ''MESSAGES_IMPORT_PENDING'')" "''fresh''"]
  by simp

text \<open>
  C3. In a run that reaches the router (channel found, not throttled, token \<open>token\<close>
  returned and assigned, so that the entity is \<open>ch\<close>), one branch runs. For the stage
  \<^verbatim>\<open>PARTIAL_MESSAGE_LIST_FETCH_PENDING\<close> the run continues with the event
  \<^verbatim>\<open>partial_message_list_fetch.started\<close>, one call of the partial fetch service with
  the channel, its connected account and the workspace id, and, when that call returns,
  the event \<^verbatim>\<open>partial_message_list_fetch.completed\<close>; when the call fails, the
  started event is the only event of the pair and the error goes to the failure
  handler. The same holds for \<^verbatim>\<open>FULL_MESSAGE_LIST_FETCH_PENDING\<close> with the full
  fetch service, called with the channel and the workspace id, and the
  \<^verbatim>\<open>full_message_list_fetch\<close> events.
\<close>

theorem stage_router_brackets_fetch:
  assumes found: "findOne deps (messageChannelId data) relations = Some loaded"
      and nothrottle:
        "\<not> isThrottled deps (syncStageStartedAt loaded) (throttleFailureCount loaded)"
      and refreshed:
        "refreshAndSaveTokens deps (connectedAccount loaded) (workspaceId data) = Inr token"
      and ch: "ch = with_token loaded token"
      and before: "before =
         [Track \<lparr>eventName = ''message_list_fetch_job.triggered'',
                 event_workspaceId = workspaceId data,
                 event_messageChannelId = Some (messageChannelId data),
                 event_connectedAccountId = None, event_message = None\<rparr>,
          GetRepository ''messageChannel'',
          FindOne (messageChannelId data) [''connectedAccount'', ''messageFolders''],
          IsThrottled (syncStageStartedAt loaded) (throttleFailureCount loaded),
          RefreshAndSaveTokens (connectedAccount loaded) (workspaceId data),
          AssignAccessToken token]"
  shows
    "(syncStage loaded = PARTIAL_MESSAGE_LIST_FETCH_PENDING \<and>
      partialProcessMessageListFetch deps ch (connectedAccount ch) (workspaceId data) = None
      \<longrightarrow> handle deps data =
          \<lparr>trace = before @
             [Track \<lparr>eventName = ''partial_message_list_fetch.started'',
                     event_workspaceId = workspaceId data,
                     event_messageChannelId = Some (messageChannel_id ch),
                     event_connectedAccountId = Some (connectedAccount_id (connectedAccount ch)),
                     event_message = None\<rparr>,
              PartialProcessMessageListFetch ch (connectedAccount ch) (workspaceId data),
              Track \<lparr>eventName = ''partial_message_list_fetch.completed'',
                     event_workspaceId = workspaceId data,
                     event_messageChannelId = Some (messageChannel_id ch),
                     event_connectedAccountId = Some (connectedAccount_id (connectedAccount ch)),
                     event_message = None\<rparr>],
           entity = Some ch, outcome = Resolved\<rparr>) \<and>
     (\<forall>error. syncStage loaded = PARTIAL_MESSAGE_LIST_FETCH_PENDING \<and>
      partialProcessMessageListFetch deps ch (connectedAccount ch) (workspaceId data) = Some error
      \<longrightarrow> handle deps data =
          \<lparr>trace = before @
             [Track \<lparr>eventName = ''partial_message_list_fetch.started'',
                     event_workspaceId = workspaceId data,
                     event_messageChannelId = Some (messageChannel_id ch),
                     event_connectedAccountId = Some (connectedAccount_id (connectedAccount ch)),
                     event_message = None\<rparr>,
              PartialProcessMessageListFetch ch (connectedAccount ch) (workspaceId data),
              HandleDriverException error FULL_OR_PARTIAL_MESSAGE_LIST_FETCH ch
                (workspaceId data)],
           entity = Some ch,
           outcome =
             (case handleDriverException deps error FULL_OR_PARTIAL_MESSAGE_LIST_FETCH ch
                     (workspaceId data) of
                None \<Rightarrow> Resolved | Some escaped \<Rightarrow> Rejected escaped)\<rparr>) \<and>
     (syncStage loaded = FULL_MESSAGE_LIST_FETCH_PENDING \<and>
      fullProcessMessageListFetch deps ch (workspaceId data) = None
      \<longrightarrow> handle deps data =
          \<lparr>trace = before @
             [Track \<lparr>eventName = ''full_message_list_fetch.started'',
                     event_workspaceId = workspaceId data,
                     event_messageChannelId = Some (messageChannel_id ch),
                     event_connectedAccountId = Some (connectedAccount_id (connectedAccount ch)),
                     event_message = None\<rparr>,
              FullProcessMessageListFetch ch (workspaceId data),
              Track \<lparr>eventName = ''full_message_list_fetch.completed'',
                     event_workspaceId = workspaceId data,
                     event_messageChannelId = Some (messageChannel_id ch),
                     event_connectedAccountId = Some (connectedAccount_id (connectedAccount ch)),
                     event_message = None\<rparr>],
           entity = Some ch, outcome = Resolved\<rparr>) \<and>
     (\<forall>error. syncStage loaded = FULL_MESSAGE_LIST_FETCH_PENDING \<and>
      fullProcessMessageListFetch deps ch (workspaceId data) = Some error
      \<longrightarrow> handle deps data =
          \<lparr>trace = before @
             [Track \<lparr>eventName = ''full_message_list_fetch.started'',
                     event_workspaceId = workspaceId data,
                     event_messageChannelId = Some (messageChannel_id ch),
                     event_connectedAccountId = Some (connectedAccount_id (connectedAccount ch)),
                     event_message = None\<rparr>,
              FullProcessMessageListFetch ch (workspaceId data),
              HandleDriverException error FULL_OR_PARTIAL_MESSAGE_LIST_FETCH ch
                (workspaceId data)],
           entity = Some ch,
           outcome =
             (case handleDriverException deps error FULL_OR_PARTIAL_MESSAGE_LIST_FETCH ch
                     (workspaceId data) of
                None \<Rightarrow> Resolved | Some escaped \<Rightarrow> Rejected escaped)\<rparr>)"
  unfolding ch before
  using found nothrottle refreshed
  by (simp add: handle_def tryBody_def refreshAccessToken_def stageRouter_def fetch_event_def
      with_token_def prelude_def job_event_def relations_def)

theorem stage_router_brackets_fetch_witness:
  "handle
     (sample_services (Some (sample_channel PARTIAL_MESSAGE_LIST_FETCH_PENDING)) False
        (Inr ''fresh'') None None)
     sample_data =
    \<lparr>trace =
       [Track \<lparr>eventName = ''message_list_fetch_job.triggered'',
               event_workspaceId = ''ws-1'', event_messageChannelId = Some ''mc-1'',
               event_connectedAccountId = None, event_message = None\<rparr>,
        GetRepository ''messageChannel'',
        FindOne ''mc-1'' [''connectedAccount'', ''messageFolders''],
        IsThrottled 1700000000000 2,
        RefreshAndSaveTokens sample_account ''ws-1'',
        AssignAccessToken ''fresh'',
        Track \<lparr>eventName = ''partial_message_list_fetch.started'',
               event_workspaceId = ''ws-1'', event_messageChannelId = Some ''mc-1'',
               event_connectedAccountId = Some ''ca-1'', event_message = None\<rparr>,
        PartialProcessMessageListFetch
          (with_token (sample_channel PARTIAL_MESSAGE_LIST_FETCH_PENDING) ''fresh'')
          (connectedAccount
             (with_token (sample_channel PARTIAL_MESSAGE_LIST_FETCH_PENDING) ''fresh''))
          ''ws-1'',
        Track \<lparr>eventName = ''partial_message_list_fetch.completed'',
               event_workspaceId = ''ws-1'', event_messageChannelId = Some ''mc-1'',
               event_connectedAccountId = Some ''ca-1'', event_message = None\<rparr>],
     entity = Some (with_token (sample_channel PARTIAL_MESSAGE_LIST_FETCH_PENDING) ''fresh''),
     outcome = Resolved\<rparr> \<and>
   handle
     (sample_services (Some (sample_channel PARTIAL_MESSAGE_LIST_FETCH_PENDING)) False
        (Inr ''fresh'') (Some rate_limited) None)
     sample_data =
    \<lparr>trace =
       [Track \<lparr>eventName = ''message_list_fetch_job.triggered'',
               event_workspaceId = ''ws-1'', event_messageChannelId = Some ''mc-1'',
               event_connectedAccountId = None, event_message = None\<rparr>,
        GetRepository ''messageChannel'',
        FindOne ''mc-1'' [''connectedAccount'', ''messageFolders''],
        IsThrottled 1700000000000 2,
        RefreshAndSaveTokens sample_account ''ws-1'',
        AssignAccessToken ''fresh'',
        Track \<lparr>eventName = ''partial_message_list_fetch.started'',
               event_workspaceId = ''ws-1'', event_messageChannelId = Some ''mc-1'',
               event_connectedAccountId = Some ''ca-1'', event_message = None\<rparr>,
        PartialProcessMessageListFetch
          (with_token (sample_channel PARTIAL_MESSAGE_LIST_FETCH_PENDING) ''fresh'')
          (connectedAccount
             (with_token (sample_channel PARTIAL_MESSAGE_LIST_FETCH_PENDING) ''fresh''))
          ''ws-1'',
        HandleDriverException rate_limited FULL_OR_PARTIAL_MESSAGE_LIST_FETCH
          (with_token (sample_channel PARTIAL_MESSAGE_LIST_FETCH_PENDING) ''fresh'') ''ws-1''],
     entity = Some (with_token (sample_channel PARTIAL_MESSAGE_LIST_FETCH_PENDING) ''fresh''),
     outcome = Resolved\<rparr> \<and>
   handle
     (sample_services (Some (sample_channel FULL_MESSAGE_LIST_FETCH_PENDING)) False
        (Inr ''fresh'') None None)
     sample_data =
    \<lparr>trace =
       [Track \<lparr>eventName = ''message_list_fetch_job.triggered'',
               event_workspaceId = ''ws-1'', event_messageChannelId = Some ''mc-1'',
               event_connectedAccountId = None, event_message = None\<rparr>,
        GetRepository ''messageChannel'',
        FindOne ''mc-1'' [''connectedAccount'', ''messageFolders''],
        IsThrottled 1700000000000 2,
        RefreshAndSaveTokens sample_account ''ws-1'',
        AssignAccessToken ''fresh'',
        Track \<lparr>eventName = ''full_message_list_fetch.started'',
               event_workspaceId = ''ws-1'', event_messageChannelId = Some ''mc-1'',
               event_connectedAccountId = Some ''ca-1'', event_message = None\<rparr>,
        FullProcessMessageListFetch
          (with_token (sample_channel FULL_MESSAGE_LIST_FETCH_PENDING) ''fresh'') ''ws-1'',
        Track \<lparr>eventName = ''full_message_list_fetch.completed'',
               event_workspaceId = ''ws-1'', event_messageChannelId = Some ''mc-1'',
               event_connectedAccountId = Some ''ca-1'', event_message = None\<rparr>],
     entity = Some (with_token (sample_channel FULL_MESSAGE_LIST_FETCH_PENDING) ''fresh''),
     outcome = Resolved\<rparr> \<and>
   handle
     (sample_services (Some (sample_channel FULL_MESSAGE_LIST_FETCH_PENDING)) False
        (Inr ''fresh'') (Some plain_error) (Some plain_error))
     sample_data =
    \<lparr>trace =
       [Track \<lparr>eventName = ''message_list_fetch_job.triggered'',
               event_workspaceId = ''ws-1'', event_messageChannelId = Some ''mc-1'',
               event_connectedAccountId = None, event_message = None\<rparr>,
        GetRepository ''messageChannel'',
        FindOne ''mc-1'' [''connectedAccount'', ''messageFolders''],
        IsThrottled 1700000000000 2,
        RefreshAndSaveTokens sample_account ''ws-1'',
        AssignAccessToken ''fresh'',
        Track \<lparr>eventName = ''full_message_list_fetch.started'',
               event_workspaceId = ''ws-1'', event_messageChannelId = Some ''mc-1'',
               event_connectedAccountId = Some ''ca-1'', event_message = None\<rparr>,
        FullProcessMessageListFetch
          (with_token (sample_channel FULL_MESSAGE_LIST_FETCH_PENDING) ''fresh'') ''ws-1'',
        HandleDriverException plain_error FULL_OR_PARTIAL_MESSAGE_LIST_FETCH
          (with_token (sample_channel FULL_MESSAGE_LIST_FETCH_PENDING) ''fresh'') ''ws-1''],
     entity = Some (with_token (sample_channel FULL_MESSAGE_LIST_FETCH_PENDING) ''fresh''),
     outcome = Rejected plain_error\<rparr>"
  using
    stage_router_brackets_fetch
      [of "sample_services (Some (sample_channel PARTIAL_MESSAGE_LIST_FETCH_PENDING)) False
             (Inr ''fresh'') None None"
          sample_data "sample_channel PARTIAL_MESSAGE_LIST_FETCH_PENDING" "''fresh''",
       OF _ _ _ refl refl]
    stage_router_brackets_fetch
      [of "sample_services (Some (sample_channel PARTIAL_MESSAGE_LIST_FETCH_PENDING)) False
             (Inr ''fresh'') (Some rate_limited) None"
          sample_data "sample_channel PARTIAL_MESSAGE_LIST_FETCH_PENDING" "''fresh''",
       OF _ _ _ refl refl]
    stage_router_brackets_fetch
      [of "sample_services (Some (sample_channel FULL_MESSAGE_LIST_FETCH_PENDING)) False
             (Inr ''fresh'') None None"
          sample_data "sample_channel FULL_MESSAGE_LIST_FETCH_PENDING" "''fresh''",
       OF _ _ _ refl refl]
    stage_router_brackets_fetch
      [of "sample_services (Some (sample_channel FULL_MESSAGE_LIST_FETCH_PENDING)) False
             (Inr ''fresh'') (Some plain_error) (Some plain_error)"
          sample_data "sample_channel FULL_MESSAGE_LIST_FETCH_PENDING" "''fresh''",
       OF _ _ _ refl refl]
  by simp

subsection \<open>The refresh error translator\<close>

text \<open>
  C2. When the refresh service fails with \<open>error\<close>, the inner \<^verbatim>\<open>try\<close> always
  throws, leaves the entity as it was, and what it throws is given by the table of
  section 4.3 of the spec: for a code of the refresh enum, a
  \<^verbatim>\<open>MessageImportDriverException\<close> with the message of \<open>error\<close> and the category
  of the table (\<^verbatim>\<open>TEMPORARY_NETWORK_ERROR\<close> gives \<^verbatim>\<open>TEMPORARY_ERROR\<close>,
  \<^verbatim>\<open>REFRESH_ACCESS_TOKEN_FAILED\<close> and \<^verbatim>\<open>REFRESH_TOKEN_NOT_FOUND\<close> give
  \<^verbatim>\<open>INSUFFICIENT_PERMISSIONS\<close>, \<^verbatim>\<open>PROVIDER_NOT_SUPPORTED\<close> gives
  \<^verbatim>\<open>PROVIDER_NOT_SUPPORTED\<close>); for any other code, or none, \<open>error\<close> itself.
  The reason \<^verbatim>\<open>PROVIDER_NOT_SUPPORTED\<close> is the same value whichever enum it was
  written from, so an error that carries the driver enum's member of that name is
  wrapped like the refresh enum's; the other two members of the driver enum are no
  reason of the table and the error is thrown again as it is.
\<close>

theorem refresh_error_translation:
  assumes failed: "refreshAndSaveTokens deps (connectedAccount ch) ws = Inl error"
  shows "snd (refreshAccessToken deps ch ws) =
           (ch, Some (case error_code error of
                        RefreshCode c \<Rightarrow>
                          MessageImportDriverException (error_message error) (spec_category c)
                      | DriverCode c \<Rightarrow>
                          (case c of
                             DRIVER_PROVIDER_NOT_SUPPORTED \<Rightarrow>
                               MessageImportDriverException (error_message error)
                                 DRIVER_PROVIDER_NOT_SUPPORTED
                           | TEMPORARY_ERROR \<Rightarrow> error
                           | INSUFFICIENT_PERMISSIONS \<Rightarrow> error)
                      | OtherCode c \<Rightarrow> error
                      | NoCode \<Rightarrow> error))"
  using failed
  by (simp add: refreshAccessToken_def catchRefreshError_def
      split: prod.splits code_value.splits MessageImportDriverExceptionCode.splits
        ConnectedAccountRefreshAccessTokenExceptionCode.splits)

theorem refresh_error_translation_witness:
  "snd (refreshAccessToken
          (sample_services None False (Inl network_down) None None)
          (sample_channel FULL_MESSAGE_LIST_FETCH_PENDING) ''ws-1'') =
     (sample_channel FULL_MESSAGE_LIST_FETCH_PENDING,
      Some (MessageImportDriverException ''socket hang up'' TEMPORARY_ERROR)) \<and>
   snd (refreshAccessToken
          (sample_services None False (Inl token_revoked) None None)
          (sample_channel FULL_MESSAGE_LIST_FETCH_PENDING) ''ws-1'') =
     (sample_channel FULL_MESSAGE_LIST_FETCH_PENDING,
      Some (MessageImportDriverException ''refresh failed'' INSUFFICIENT_PERMISSIONS)) \<and>
   snd (refreshAccessToken
          (sample_services None False (Inl token_missing) None None)
          (sample_channel FULL_MESSAGE_LIST_FETCH_PENDING) ''ws-1'') =
     (sample_channel FULL_MESSAGE_LIST_FETCH_PENDING,
      Some (MessageImportDriverException ''no refresh token'' INSUFFICIENT_PERMISSIONS)) \<and>
   snd (refreshAccessToken
          (sample_services None False (Inl provider_unknown) None None)
          (sample_channel FULL_MESSAGE_LIST_FETCH_PENDING) ''ws-1'') =
     (sample_channel FULL_MESSAGE_LIST_FETCH_PENDING,
      Some (MessageImportDriverException ''provider not supported''
              DRIVER_PROVIDER_NOT_SUPPORTED)) \<and>
   snd (refreshAccessToken
          (sample_services None False (Inl plain_error) None None)
          (sample_channel FULL_MESSAGE_LIST_FETCH_PENDING) ''ws-1'') =
     (sample_channel FULL_MESSAGE_LIST_FETCH_PENDING, Some plain_error) \<and>
   snd (refreshAccessToken
          (sample_services None False (Inl rate_limited) None None)
          (sample_channel FULL_MESSAGE_LIST_FETCH_PENDING) ''ws-1'') =
     (sample_channel FULL_MESSAGE_LIST_FETCH_PENDING, Some rate_limited) \<and>
   snd (refreshAccessToken
          (sample_services None False (Inl driver_coded) None None)
          (sample_channel FULL_MESSAGE_LIST_FETCH_PENDING) ''ws-1'') =
     (sample_channel FULL_MESSAGE_LIST_FETCH_PENDING,
      Some (MessageImportDriverException ''unsupported provider''
              DRIVER_PROVIDER_NOT_SUPPORTED))"
  using
    refresh_error_translation
      [of "sample_services None False (Inl network_down) None None"
          "sample_channel FULL_MESSAGE_LIST_FETCH_PENDING" "''ws-1''" network_down]
    refresh_error_translation
      [of "sample_services None False (Inl token_revoked) None None"
          "sample_channel FULL_MESSAGE_LIST_FETCH_PENDING" "''ws-1''" token_revoked]
    refresh_error_translation
      [of "sample_services None False (Inl token_missing) None None"
          "sample_channel FULL_MESSAGE_LIST_FETCH_PENDING" "''ws-1''" token_missing]
    refresh_error_translation
      [of "sample_services None False (Inl provider_unknown) None None"
          "sample_channel FULL_MESSAGE_LIST_FETCH_PENDING" "''ws-1''" provider_unknown]
    refresh_error_translation
      [of "sample_services None False (Inl plain_error) None None"
          "sample_channel FULL_MESSAGE_LIST_FETCH_PENDING" "''ws-1''" plain_error]
    refresh_error_translation
      [of "sample_services None False (Inl rate_limited) None None"
          "sample_channel FULL_MESSAGE_LIST_FETCH_PENDING" "''ws-1''" rate_limited]
    refresh_error_translation
      [of "sample_services None False (Inl driver_coded) None None"
          "sample_channel FULL_MESSAGE_LIST_FETCH_PENDING" "''ws-1''" driver_coded]
  by (simp add: network_down_def token_revoked_def token_missing_def provider_unknown_def
      plain_error_def rate_limited_def driver_coded_def)

text \<open>
  C6. When the refresh is reached and fails with the code
  \<^verbatim>\<open>REFRESH_ACCESS_TOKEN_FAILED\<close> or \<^verbatim>\<open>REFRESH_TOKEN_NOT_FOUND\<close>, the run
  continues after the call of the refresh service with the event
  \<^verbatim>\<open>refresh_token.error.insufficient_permissions\<close>, carrying the workspace id, the
  \<^verbatim>\<open>connectedAccountId\<close> and the id of the channel and the message made of the code,
  a colon and a space, and the reason (empty when the error has none), and only then
  with the wrapped exception, handed to the failure handler. In every run the number
  of such events is one in exactly this case and zero in every other.
\<close>

theorem insufficient_permissions_event_once:
  "(\<forall>ch error c.
      findOne deps (messageChannelId data) relations = Some ch \<and>
      \<not> isThrottled deps (syncStageStartedAt ch) (throttleFailureCount ch) \<and>
      refreshAndSaveTokens deps (connectedAccount ch) (workspaceId data) = Inl error \<and>
      error_code error = RefreshCode c \<and>
      (c = REFRESH_ACCESS_TOKEN_FAILED \<or> c = REFRESH_TOKEN_NOT_FOUND)
      \<longrightarrow> trace (handle deps data) =
            [Track \<lparr>eventName = ''message_list_fetch_job.triggered'',
                    event_workspaceId = workspaceId data,
                    event_messageChannelId = Some (messageChannelId data),
                    event_connectedAccountId = None, event_message = None\<rparr>,
             GetRepository ''messageChannel'',
             FindOne (messageChannelId data) [''connectedAccount'', ''messageFolders''],
             IsThrottled (syncStageStartedAt ch) (throttleFailureCount ch),
             RefreshAndSaveTokens (connectedAccount ch) (workspaceId data),
             Track \<lparr>eventName = ''refresh_token.error.insufficient_permissions'',
                    event_workspaceId = workspaceId data,
                    event_messageChannelId = Some (messageChannel_id ch),
                    event_connectedAccountId = Some (connectedAccountId ch),
                    event_message =
                      Some (codeText deps c @ '': '' @
                            (case error_reason error of None \<Rightarrow> [] | Some r \<Rightarrow> r))\<rparr>,
             HandleDriverException
               (MessageImportDriverException (error_message error) INSUFFICIENT_PERMISSIONS)
               FULL_OR_PARTIAL_MESSAGE_LIST_FETCH ch (workspaceId data)]) \<and>
   calls isInsufficientPermissionsEvent (trace (handle deps data)) =
     (case findOne deps (messageChannelId data) relations of
        None \<Rightarrow> 0
      | Some ch \<Rightarrow>
          if isThrottled deps (syncStageStartedAt ch) (throttleFailureCount ch) then 0
          else
            (case refreshAndSaveTokens deps (connectedAccount ch) (workspaceId data) of
               Inr token \<Rightarrow> 0
             | Inl error \<Rightarrow>
                 if error_code error = RefreshCode REFRESH_ACCESS_TOKEN_FAILED \<or>
                    error_code error = RefreshCode REFRESH_TOKEN_NOT_FOUND
                 then 1 else 0))"
proof -
  have emitted: "trace (handle deps data) =
            [Track \<lparr>eventName = ''message_list_fetch_job.triggered'',
                    event_workspaceId = workspaceId data,
                    event_messageChannelId = Some (messageChannelId data),
                    event_connectedAccountId = None, event_message = None\<rparr>,
             GetRepository ''messageChannel'',
             FindOne (messageChannelId data) [''connectedAccount'', ''messageFolders''],
             IsThrottled (syncStageStartedAt ch) (throttleFailureCount ch),
             RefreshAndSaveTokens (connectedAccount ch) (workspaceId data),
             Track \<lparr>eventName = ''refresh_token.error.insufficient_permissions'',
                    event_workspaceId = workspaceId data,
                    event_messageChannelId = Some (messageChannel_id ch),
                    event_connectedAccountId = Some (connectedAccountId ch),
                    event_message =
                      Some (codeText deps c @ '': '' @
                            (case error_reason error of None \<Rightarrow> [] | Some r \<Rightarrow> r))\<rparr>,
             HandleDriverException
               (MessageImportDriverException (error_message error) INSUFFICIENT_PERMISSIONS)
               FULL_OR_PARTIAL_MESSAGE_LIST_FETCH ch (workspaceId data)]"
    if "findOne deps (messageChannelId data) relations = Some ch \<and>
      \<not> isThrottled deps (syncStageStartedAt ch) (throttleFailureCount ch) \<and>
      refreshAndSaveTokens deps (connectedAccount ch) (workspaceId data) = Inl error \<and>
      error_code error = RefreshCode c \<and>
      (c = REFRESH_ACCESS_TOKEN_FAILED \<or> c = REFRESH_TOKEN_NOT_FOUND)"
    for ch error c
    using that
    by (auto simp add: handle_def tryBody_def refreshAccessToken_def catchRefreshError_def
        insufficient_permissions_event_def prelude_def job_event_def relations_def)
  have counted: "calls isInsufficientPermissionsEvent (trace (handle deps data)) =
     (case findOne deps (messageChannelId data) relations of
        None \<Rightarrow> 0
      | Some ch \<Rightarrow>
          if isThrottled deps (syncStageStartedAt ch) (throttleFailureCount ch) then 0
          else
            (case refreshAndSaveTokens deps (connectedAccount ch) (workspaceId data) of
               Inr token \<Rightarrow> 0
             | Inl error \<Rightarrow>
                 if error_code error = RefreshCode REFRESH_ACCESS_TOKEN_FAILED \<or>
                    error_code error = RefreshCode REFRESH_TOKEN_NOT_FOUND
                 then 1 else 0))"
  proof (cases "findOne deps (messageChannelId data) relations")
    case None
    then show ?thesis
      by (simp add: handle_not_found_run prelude_calls job_event_def)
  next
    case (Some ch)
    show ?thesis
    proof (cases "isThrottled deps (syncStageStartedAt ch) (throttleFailureCount ch)")
      case True
      with Some show ?thesis
        by (simp add: handle_throttled_run prelude_calls)
    next
      case False
      show ?thesis
      proof (cases "refreshAndSaveTokens deps (connectedAccount ch) (workspaceId data)")
        case (Inl error)
        obtain acts e where caught:
          "catchRefreshError deps ch (workspaceId data) error = (acts, e)"
          by (cases "catchRefreshError deps ch (workspaceId data) error")
        have "calls isInsufficientPermissionsEvent acts =
                (if error_code error = RefreshCode REFRESH_ACCESS_TOKEN_FAILED \<or>
                    error_code error = RefreshCode REFRESH_TOKEN_NOT_FOUND then 1 else 0)"
          using catchRefreshError_insufficient [of deps ch "workspaceId data" error] caught
          by simp
        then show ?thesis
          using Some False Inl
          by (simp add: handle_refresh_failed [OF Some False Inl caught] prelude_calls)
      next
        case (Inr token)
        obtain acts r where routed:
          "stageRouter deps (with_token ch token) (workspaceId data) = (acts, r)"
          by (cases "stageRouter deps (with_token ch token) (workspaceId data)")
        show ?thesis
          using Some False Inr stageRouter_no_insufficient [OF routed]
          by (simp add: handle_routed [OF Some False Inr routed] prelude_calls
              split: option.splits)
      qed
    qed
  qed
  from emitted counted show ?thesis
    by blast
qed

theorem insufficient_permissions_event_once_witness:
  "trace (handle
            (sample_services (Some (sample_channel FULL_MESSAGE_LIST_FETCH_PENDING)) False
               (Inl token_revoked) None None)
            sample_data) =
     [Track \<lparr>eventName = ''message_list_fetch_job.triggered'',
             event_workspaceId = ''ws-1'', event_messageChannelId = Some ''mc-1'',
             event_connectedAccountId = None, event_message = None\<rparr>,
      GetRepository ''messageChannel'',
      FindOne ''mc-1'' [''connectedAccount'', ''messageFolders''],
      IsThrottled 1700000000000 2,
      RefreshAndSaveTokens sample_account ''ws-1'',
      Track \<lparr>eventName = ''refresh_token.error.insufficient_permissions'',
             event_workspaceId = ''ws-1'', event_messageChannelId = Some ''mc-1'',
             event_connectedAccountId = Some ''ca-1'',
             event_message = Some ''REFRESH_ACCESS_TOKEN_FAILED: invalid_grant''\<rparr>,
      HandleDriverException
        (MessageImportDriverException ''refresh failed'' INSUFFICIENT_PERMISSIONS)
        FULL_OR_PARTIAL_MESSAGE_LIST_FETCH (sample_channel FULL_MESSAGE_LIST_FETCH_PENDING)
        ''ws-1''] \<and>
   calls isInsufficientPermissionsEvent
     (trace (handle
               (sample_services (Some (sample_channel FULL_MESSAGE_LIST_FETCH_PENDING)) False
                  (Inl token_revoked) None None)
               sample_data)) = 1 \<and>
   calls isInsufficientPermissionsEvent
     (trace (handle
               (sample_services (Some (sample_channel FULL_MESSAGE_LIST_FETCH_PENDING)) False
                  (Inl network_down) None None)
               sample_data)) = 0"
  using
    insufficient_permissions_event_once
      [of "sample_services (Some (sample_channel FULL_MESSAGE_LIST_FETCH_PENDING)) False
             (Inl token_revoked) None None" sample_data]
    insufficient_permissions_event_once
      [of "sample_services (Some (sample_channel FULL_MESSAGE_LIST_FETCH_PENDING)) False
             (Inl network_down) None None" sample_data]
  by (simp add: token_revoked_def network_down_def)

subsection \<open>The outer \<^verbatim>\<open>catch\<close>\<close>

text \<open>
  C1. Take a run in which the channel is found and not throttled, let the refresh
  (step 4, the inner \<^verbatim>\<open>try\<close> with its translation) do \<open>a4\<close> and leave the entity
  \<open>ch4\<close>, and let the router (step 5) do \<open>a5\<close>. When \<open>error\<close> is raised by either,
  the run is those actions followed by one call of \<^verbatim>\<open>handleDriverException\<close> with
  \<open>error\<close> as it was raised, the step \<^verbatim>\<open>FULL_OR_PARTIAL_MESSAGE_LIST_FETCH\<close>, the
  loaded channel and the workspace id of the job. Nothing follows that call: the
  outcome of \<open>handle\<close> is the outcome of the handler, the handler is called once, the
  refresh service once and a fetch service at most once.
\<close>

theorem handle_forwards_error_once:
  assumes found: "findOne deps (messageChannelId data) relations = Some ch"
      and nothrottle: "\<not> isThrottled deps (syncStageStartedAt ch) (throttleFailureCount ch)"
      and step4: "refreshAccessToken deps ch (workspaceId data) = (a4, ch4, r4)"
      and step5: "stageRouter deps ch4 (workspaceId data) = (a5, r5)"
      and raised: "r4 = Some error \<or> (r4 = None \<and> r5 = Some error)"
  shows "trace (handle deps data) =
           prelude data @
           IsThrottled (syncStageStartedAt ch) (throttleFailureCount ch) # a4 @
           (if r4 = None then a5 else []) @
           [HandleDriverException error FULL_OR_PARTIAL_MESSAGE_LIST_FETCH ch4 (workspaceId data)]
         \<and> entity (handle deps data) = Some ch4
         \<and> (ch4 = ch \<or> (\<exists>token. ch4 = with_token ch token))
         \<and> outcome (handle deps data) =
             (case handleDriverException deps error FULL_OR_PARTIAL_MESSAGE_LIST_FETCH ch4
                     (workspaceId data) of
                None \<Rightarrow> Resolved | Some escaped \<Rightarrow> Rejected escaped)
         \<and> calls isHandleDriverException (trace (handle deps data)) = 1
         \<and> calls isRefreshAndSaveTokens (trace (handle deps data)) = 1
         \<and> calls isProcessMessageListFetch (trace (handle deps data)) \<le> 1"
proof -
  let ?ws = "workspaceId data"
  let ?h = "HandleDriverException error FULL_OR_PARTIAL_MESSAGE_LIST_FETCH ch4 ?ws"
  let ?mid = "IsThrottled (syncStageStartedAt ch) (throttleFailureCount ch) # a4 @
              (if r4 = None then a5 else [])"
  have body: "tryBody deps ch ?ws = (?mid, ch4, Some error)"
    using nothrottle step4 step5 raised by (auto simp add: tryBody_def)
  have run: "handle deps data =
      \<lparr>trace = prelude data @ ?mid @ [?h], entity = Some ch4,
       outcome = (case handleDriverException deps error FULL_OR_PARTIAL_MESSAGE_LIST_FETCH
                         ch4 ?ws of None \<Rightarrow> Resolved | Some escaped \<Rightarrow> Rejected escaped)\<rparr>"
    using found body by (simp add: handle_def)
  have in4: "calls isHandleDriverException a4 = 0" "calls isRefreshAndSaveTokens a4 = 1"
    "calls isProcessMessageListFetch a4 = 0"
    using refreshAccessToken_calls [OF step4] by simp_all
  have in5: "calls isHandleDriverException a5 = 0" "calls isRefreshAndSaveTokens a5 = 0"
    "calls isProcessMessageListFetch a5 \<le> 1"
    using stageRouter_calls [OF step5] by simp_all
  have same: "ch4 = ch \<or> (\<exists>token. ch4 = with_token ch token)"
    using refreshAccessToken_entity [OF step4] by auto
  show ?thesis
    using run in4 in5 same by (simp add: prelude_calls)
qed

theorem handle_forwards_error_once_witness:
  "refreshAccessToken
     (sample_services (Some (sample_channel (OTHER_SYNC_STAGE ''FAILED''))) False
        (Inl network_down) None None)
     (sample_channel (OTHER_SYNC_STAGE ''FAILED'')) (workspaceId sample_data) =
     ([RefreshAndSaveTokens sample_account ''ws-1''],
      sample_channel (OTHER_SYNC_STAGE ''FAILED''),
      Some (MessageImportDriverException ''socket hang up'' TEMPORARY_ERROR)) \<and>
   trace (handle
            (sample_services (Some (sample_channel (OTHER_SYNC_STAGE ''FAILED''))) False
               (Inl network_down) None None)
            sample_data) =
     [Track \<lparr>eventName = ''message_list_fetch_job.triggered'',
             event_workspaceId = ''ws-1'', event_messageChannelId = Some ''mc-1'',
             event_connectedAccountId = None, event_message = None\<rparr>,
      GetRepository ''messageChannel'',
      FindOne ''mc-1'' [''connectedAccount'', ''messageFolders''],
      IsThrottled 1700000000000 2,
      RefreshAndSaveTokens sample_account ''ws-1'',
      HandleDriverException (MessageImportDriverException ''socket hang up'' TEMPORARY_ERROR)
        FULL_OR_PARTIAL_MESSAGE_LIST_FETCH (sample_channel (OTHER_SYNC_STAGE ''FAILED''))
        ''ws-1''] \<and>
   outcome (handle
              (sample_services (Some (sample_channel (OTHER_SYNC_STAGE ''FAILED''))) False
                 (Inl network_down) None None)
              sample_data) = Resolved \<and>
   calls isHandleDriverException
     (trace (handle
               (sample_services (Some (sample_channel (OTHER_SYNC_STAGE ''FAILED''))) False
                  (Inl network_down) None None)
               sample_data)) = 1 \<and>
   stageRouter
     (sample_services (Some (sample_channel PARTIAL_MESSAGE_LIST_FETCH_PENDING)) False
        (Inr ''fresh'') (Some rate_limited) (Some plain_error))
     (with_token (sample_channel PARTIAL_MESSAGE_LIST_FETCH_PENDING) ''fresh'')
     (workspaceId sample_data) =
     ([Track \<lparr>eventName = ''partial_message_list_fetch.started'',
              event_workspaceId = ''ws-1'', event_messageChannelId = Some ''mc-1'',
              event_connectedAccountId = Some ''ca-1'', event_message = None\<rparr>,
       PartialProcessMessageListFetch
         (with_token (sample_channel PARTIAL_MESSAGE_LIST_FETCH_PENDING) ''fresh'')
         (connectedAccount
            (with_token (sample_channel PARTIAL_MESSAGE_LIST_FETCH_PENDING) ''fresh''))
         ''ws-1''],
      Some rate_limited) \<and>
   trace (handle
            (sample_services (Some (sample_channel PARTIAL_MESSAGE_LIST_FETCH_PENDING)) False
               (Inr ''fresh'') (Some rate_limited) (Some plain_error))
            sample_data) =
     [Track \<lparr>eventName = ''message_list_fetch_job.triggered'',
             event_workspaceId = ''ws-1'', event_messageChannelId = Some ''mc-1'',
             event_connectedAccountId = None, event_message = None\<rparr>,
      GetRepository ''messageChannel'',
      FindOne ''mc-1'' [''connectedAccount'', ''messageFolders''],
      IsThrottled 1700000000000 2,
      RefreshAndSaveTokens sample_account ''ws-1'',
      AssignAccessToken ''fresh'',
      Track \<lparr>eventName = ''partial_message_list_fetch.started'',
             event_workspaceId = ''ws-1'', event_messageChannelId = Some ''mc-1'',
             event_connectedAccountId = Some ''ca-1'', event_message = None\<rparr>,
      PartialProcessMessageListFetch
        (with_token (sample_channel PARTIAL_MESSAGE_LIST_FETCH_PENDING) ''fresh'')
        (connectedAccount
           (with_token (sample_channel PARTIAL_MESSAGE_LIST_FETCH_PENDING) ''fresh''))
        ''ws-1'',
      HandleDriverException rate_limited FULL_OR_PARTIAL_MESSAGE_LIST_FETCH
        (with_token (sample_channel PARTIAL_MESSAGE_LIST_FETCH_PENDING) ''fresh'') ''ws-1''] \<and>
   outcome (handle
              (sample_services (Some (sample_channel PARTIAL_MESSAGE_LIST_FETCH_PENDING)) False
                 (Inr ''fresh'') (Some rate_limited) (Some plain_error))
              sample_data) = Rejected plain_error \<and>
   calls isHandleDriverException
     (trace (handle
               (sample_services (Some (sample_channel PARTIAL_MESSAGE_LIST_FETCH_PENDING)) False
                  (Inr ''fresh'') (Some rate_limited) (Some plain_error))
               sample_data)) = 1"
proof -
  let ?idle = "sample_channel (OTHER_SYNC_STAGE ''FAILED'')"
  let ?down = "sample_services (Some ?idle) False (Inl network_down) None None"
  let ?wrapped = "MessageImportDriverException ''socket hang up'' TEMPORARY_ERROR"
  let ?pending = "sample_channel PARTIAL_MESSAGE_LIST_FETCH_PENDING"
  let ?limited = "sample_services (Some ?pending) False (Inr ''fresh'') (Some rate_limited)
                    (Some plain_error)"
  let ?started = "Track \<lparr>eventName = ''partial_message_list_fetch.started'',
              event_workspaceId = ''ws-1'', event_messageChannelId = Some ''mc-1'',
              event_connectedAccountId = Some ''ca-1'', event_message = None\<rparr>"
  let ?fetch = "PartialProcessMessageListFetch (with_token ?pending ''fresh'')
         (connectedAccount (with_token ?pending ''fresh'')) ''ws-1''"
  have found1: "findOne ?down (messageChannelId sample_data) relations = Some ?idle"
    by simp
  have open1: "\<not> isThrottled ?down (syncStageStartedAt ?idle) (throttleFailureCount ?idle)"
    by simp
  have refresh1: "refreshAccessToken ?down ?idle (workspaceId sample_data) =
      ([RefreshAndSaveTokens sample_account ''ws-1''], ?idle, Some ?wrapped)"
    by (simp add: refreshAccessToken_def catchRefreshError_def network_down_def)
  have route1: "stageRouter ?down ?idle (workspaceId sample_data) = ([], None)"
    by (simp add: stageRouter_def)
  have found2: "findOne ?limited (messageChannelId sample_data) relations = Some ?pending"
    by simp
  have open2:
    "\<not> isThrottled ?limited (syncStageStartedAt ?pending) (throttleFailureCount ?pending)"
    by simp
  have refresh2: "refreshAccessToken ?limited ?pending (workspaceId sample_data) =
      ([RefreshAndSaveTokens sample_account ''ws-1'', AssignAccessToken ''fresh''],
       with_token ?pending ''fresh'', None)"
    by (simp add: refreshAccessToken_def with_token_def)
  have route2: "stageRouter ?limited (with_token ?pending ''fresh'') (workspaceId sample_data) =
      ([?started, ?fetch], Some rate_limited)"
    by (simp add: stageRouter_def fetch_event_def)
  show ?thesis
    using refresh1 route2
      handle_forwards_error_once [OF found1 open1 refresh1 route1, of ?wrapped]
      handle_forwards_error_once [OF found2 open2 refresh2 route2, of rate_limited]
    by (simp add: sample_prelude)
qed

subsection \<open>The entity\<close>

text \<open>
  C8. In every run the job assigns to the entity at most once, and only to
  \<^verbatim>\<open>connectedAccount.accessToken\<close>. Without a loaded channel there is no entity and
  no assignment. With the loaded channel \<open>ch\<close>, a run that is throttled or whose
  refresh fails holds no assignment and leaves the entity \<open>ch\<close>; a run whose refresh
  returns \<open>token\<close> holds the one assignment of \<open>token\<close> and leaves \<open>ch\<close> with that
  access token: its id, stage, stage start, failure count, connected account id,
  folders and the id of its connected account are those of \<open>ch\<close>.
\<close>

theorem handle_assigns_access_token_only:
  "(case findOne deps (messageChannelId data) relations of
      None \<Rightarrow>
        entity (handle deps data) = None \<and>
        calls isAssignAccessToken (trace (handle deps data)) = 0
    | Some ch \<Rightarrow>
        if isThrottled deps (syncStageStartedAt ch) (throttleFailureCount ch)
        then entity (handle deps data) = Some ch \<and>
             calls isAssignAccessToken (trace (handle deps data)) = 0
        else
          (case refreshAndSaveTokens deps (connectedAccount ch) (workspaceId data) of
             Inl error \<Rightarrow>
               entity (handle deps data) = Some ch \<and>
               calls isAssignAccessToken (trace (handle deps data)) = 0
           | Inr token \<Rightarrow>
               entity (handle deps data) = Some (with_token ch token) \<and>
               calls isAssignAccessToken (trace (handle deps data)) = 1 \<and>
               AssignAccessToken token \<in> set (trace (handle deps data)) \<and>
               messageChannel_id (with_token ch token) = messageChannel_id ch \<and>
               syncStage (with_token ch token) = syncStage ch \<and>
               syncStageStartedAt (with_token ch token) = syncStageStartedAt ch \<and>
               throttleFailureCount (with_token ch token) = throttleFailureCount ch \<and>
               connectedAccountId (with_token ch token) = connectedAccountId ch \<and>
               messageFolders (with_token ch token) = messageFolders ch \<and>
               connectedAccount_id (connectedAccount (with_token ch token)) =
                 connectedAccount_id (connectedAccount ch) \<and>
               accessToken (connectedAccount (with_token ch token)) = token))"
proof (cases "findOne deps (messageChannelId data) relations")
  case None
  then show ?thesis
    by (simp add: handle_not_found_run prelude_calls)
next
  case (Some ch)
  show ?thesis
  proof (cases "isThrottled deps (syncStageStartedAt ch) (throttleFailureCount ch)")
    case True
    with Some show ?thesis
      by (simp add: handle_throttled_run prelude_calls)
  next
    case False
    show ?thesis
    proof (cases "refreshAndSaveTokens deps (connectedAccount ch) (workspaceId data)")
      case (Inl error)
      obtain acts e where caught:
        "catchRefreshError deps ch (workspaceId data) error = (acts, e)"
        by (cases "catchRefreshError deps ch (workspaceId data) error")
      show ?thesis
        using Some False Inl catchRefreshError_calls [OF caught]
        by (simp add: handle_refresh_failed [OF Some False Inl caught] prelude_calls)
    next
      case (Inr token)
      obtain acts r where routed:
        "stageRouter deps (with_token ch token) (workspaceId data) = (acts, r)"
        by (cases "stageRouter deps (with_token ch token) (workspaceId data)")
      show ?thesis
        using Some False Inr stageRouter_calls [OF routed]
        by (simp add: handle_routed [OF Some False Inr routed] prelude_calls
            split: option.splits)
    qed
  qed
qed

theorem handle_assigns_access_token_only_witness:
  "entity (handle
             (sample_services (Some (sample_channel FULL_MESSAGE_LIST_FETCH_PENDING)) False
                (Inr ''fresh'') None None)
             sample_data) =
     Some (with_token (sample_channel FULL_MESSAGE_LIST_FETCH_PENDING) ''fresh'') \<and>
   calls isAssignAccessToken
     (trace (handle
               (sample_services (Some (sample_channel FULL_MESSAGE_LIST_FETCH_PENDING)) False
                  (Inr ''fresh'') None None)
               sample_data)) = 1 \<and>
   AssignAccessToken ''fresh'' \<in>
     set (trace (handle
                   (sample_services (Some (sample_channel FULL_MESSAGE_LIST_FETCH_PENDING))
                      False (Inr ''fresh'') None None)
                   sample_data)) \<and>
   syncStage (with_token (sample_channel FULL_MESSAGE_LIST_FETCH_PENDING) ''fresh'') =
     FULL_MESSAGE_LIST_FETCH_PENDING \<and>
   entity (handle
             (sample_services (Some (sample_channel FULL_MESSAGE_LIST_FETCH_PENDING)) False
                (Inl token_missing) None None)
             sample_data) = Some (sample_channel FULL_MESSAGE_LIST_FETCH_PENDING) \<and>
   calls isAssignAccessToken
     (trace (handle
               (sample_services (Some (sample_channel FULL_MESSAGE_LIST_FETCH_PENDING)) False
                  (Inl token_missing) None None)
               sample_data)) = 0"
  using
    handle_assigns_access_token_only
      [of "sample_services (Some (sample_channel FULL_MESSAGE_LIST_FETCH_PENDING)) False
             (Inr ''fresh'') None None" sample_data]
    handle_assigns_access_token_only
      [of "sample_services (Some (sample_channel FULL_MESSAGE_LIST_FETCH_PENDING)) False
             (Inl token_missing) None None" sample_data]
  by simp

text \<open>
  C10. Whenever a run holds a call of \<^verbatim>\<open>handleDriverException\<close>, the repository
  had found a channel, and the channel of the call is that entity as the job holds it
  (the loaded channel, with the refreshed access token when the refresh went through,
  with the folders and the connected account it was loaded with); the step of the call
  is \<^verbatim>\<open>FULL_OR_PARTIAL_MESSAGE_LIST_FETCH\<close> and its workspace id that of the job.
  So no run without a channel calls the handler.
\<close>

theorem failure_handler_gets_loaded_channel:
  assumes called: "HandleDriverException error step c ws \<in> set (trace (handle deps data))"
  shows "\<exists>loaded.
           findOne deps (messageChannelId data) relations = Some loaded \<and>
           entity (handle deps data) = Some c \<and>
           (c = loaded \<or> (\<exists>token. c = with_token loaded token)) \<and>
           messageFolders c = messageFolders loaded \<and>
           connectedAccount_id (connectedAccount c) =
             connectedAccount_id (connectedAccount loaded) \<and>
           step = FULL_OR_PARTIAL_MESSAGE_LIST_FETCH \<and> ws = workspaceId data"
proof (cases "findOne deps (messageChannelId data) relations")
  case None
  with called show ?thesis
    by (simp add: handle_not_found_run prelude_def)
next
  case (Some ch)
  show ?thesis
  proof (cases "isThrottled deps (syncStageStartedAt ch) (throttleFailureCount ch)")
    case True
    with Some called show ?thesis
      by (simp add: handle_throttled_run prelude_def)
  next
    case False
    show ?thesis
    proof (cases "refreshAndSaveTokens deps (connectedAccount ch) (workspaceId data)")
      case (Inl e0)
      obtain acts e where caught:
        "catchRefreshError deps ch (workspaceId data) e0 = (acts, e)"
        by (cases "catchRefreshError deps ch (workspaceId data) e0")
      have "HandleDriverException error step c ws \<notin> set acts"
        using caught
        by (auto simp add: catchRefreshError_def
            split: option.splits ConnectedAccountRefreshAccessTokenExceptionCode.splits)
      then show ?thesis
        using Some called
        by (auto simp add: handle_refresh_failed [OF Some False Inl caught] prelude_def)
    next
      case (Inr token)
      obtain acts r where routed:
        "stageRouter deps (with_token ch token) (workspaceId data) = (acts, r)"
        by (cases "stageRouter deps (with_token ch token) (workspaceId data)")
      have "HandleDriverException error step c ws \<notin> set acts"
        using routed
        by (auto simp add: stageRouter_def
            split: MessageChannelSyncStage.splits option.splits)
      then show ?thesis
        using Some called
        by (auto simp add: handle_routed [OF Some False Inr routed] prelude_def
            split: option.splits)
    qed
  qed
qed

theorem failure_handler_gets_loaded_channel_witness:
  "HandleDriverException plain_error FULL_OR_PARTIAL_MESSAGE_LIST_FETCH
     (with_token (sample_channel FULL_MESSAGE_LIST_FETCH_PENDING) ''fresh'') ''ws-1''
     \<in> set (trace (handle
                     (sample_services (Some (sample_channel FULL_MESSAGE_LIST_FETCH_PENDING))
                        False (Inr ''fresh'') (Some plain_error) None)
                     sample_data)) \<and>
   (\<exists>loaded.
      findOne
        (sample_services (Some (sample_channel FULL_MESSAGE_LIST_FETCH_PENDING)) False
           (Inr ''fresh'') (Some plain_error) None)
        (messageChannelId sample_data) relations = Some loaded \<and>
      entity (handle
                (sample_services (Some (sample_channel FULL_MESSAGE_LIST_FETCH_PENDING)) False
                   (Inr ''fresh'') (Some plain_error) None)
                sample_data) =
        Some (with_token (sample_channel FULL_MESSAGE_LIST_FETCH_PENDING) ''fresh'') \<and>
      (with_token (sample_channel FULL_MESSAGE_LIST_FETCH_PENDING) ''fresh'' = loaded \<or>
       (\<exists>token. with_token (sample_channel FULL_MESSAGE_LIST_FETCH_PENDING) ''fresh'' =
                  with_token loaded token)) \<and>
      messageFolders (with_token (sample_channel FULL_MESSAGE_LIST_FETCH_PENDING) ''fresh'') =
        messageFolders loaded)"
proof -
  let ?pending = "sample_channel FULL_MESSAGE_LIST_FETCH_PENDING"
  let ?deps = "sample_services (Some ?pending) False (Inr ''fresh'') (Some plain_error) None"
  have called: "HandleDriverException plain_error FULL_OR_PARTIAL_MESSAGE_LIST_FETCH
     (with_token ?pending ''fresh'') ''ws-1'' \<in> set (trace (handle ?deps sample_data))"
    by (simp add: handle_def tryBody_def refreshAccessToken_def stageRouter_def with_token_def)
  from failure_handler_gets_loaded_channel [OF called] called show ?thesis
    by blast
qed

end
